theory Spec2Isabelle
  imports Complex_Main
begin

section \<open>JOKKO AI: the chat and health handlers of App.py\<close>

text \<open>
  App.py is one FastAPI module: two constant tables, a chat handler that classifies a
  message by substring tests and answers with a canned text, and two metadata endpoints.
  The handlers read the constant tables only; nothing is mutated, so every handler is a
  function of its request.
\<close>

subsection \<open>Python strings\<close>

text \<open>
  A Python \<^verbatim>\<open>str\<close> is a sequence of Unicode code points. Code points are natural
  numbers here; \<open>ascii\<close> reads an ASCII literal, and a code point beyond ASCII is
  written as its number (233 is e-acute, 224 a-grave, 231 c-cedilla, 8364 the euro sign,
  8217 the right single quotation mark).
\<close>

type_synonym str = "nat list"

definition ascii :: "string \<Rightarrow> str" where
  "ascii cs = map of_char cs"

text \<open>
  \<^verbatim>\<open>str.lower()\<close>. On a string of ASCII code points only, the letters A to Z move to
  a to z and every other code point stays. A string with a code point from 128 on is
  lowercased through the Unicode case tables of the Python runtime, which are no part of
  this repository: that function is the parameter \<open>unicode_lower\<close>.
\<close>

definition lower_ascii :: "nat \<Rightarrow> nat" where
  "lower_ascii c = (if 65 \<le> c \<and> c \<le> 90 then c + 32 else c)"

definition lower :: "(str \<Rightarrow> str) \<Rightarrow> str \<Rightarrow> str" where
  "lower unicode_lower s =
     (if list_all (\<lambda>c. c < 128) s then map lower_ascii s else unicode_lower s)"

text \<open>
  \<^verbatim>\<open>k in message\<close> on two strings: \<open>k\<close> occurs in \<open>message\<close> as a contiguous run.
  \<open>startswith s k\<close> tests the run at the front of \<open>s\<close>.
\<close>

fun startswith :: "str \<Rightarrow> str \<Rightarrow> bool" where
  "startswith s [] = True"
| "startswith [] (c # k) = False"
| "startswith (d # s) (c # k) = (d = c \<and> startswith s k)"

fun contains :: "str \<Rightarrow> str \<Rightarrow> bool" where
  "contains [] k = startswith [] k"
| "contains (d # s) k = (startswith (d # s) k \<or> contains s k)"

text \<open>\<^verbatim>\<open>any(k in message for k in ks)\<close>\<close>

definition any_in :: "str \<Rightarrow> str list \<Rightarrow> bool" where
  "any_in msg ks = list_ex (\<lambda>k. contains msg k) ks"

subsection \<open>Dictionaries and exceptions\<close>

text \<open>
  The two tables are dictionaries with string keys, kept as association lists in the
  order of the source. \<^verbatim>\<open>d[k]\<close> raises \<^verbatim>\<open>KeyError(k)\<close> on a missing key, and
  \<^verbatim>\<open>str\<close> of that exception is \<^verbatim>\<open>repr(k)\<close>: the key between single quotes, for the
  keys the handler uses (letters and underscores only).
\<close>

datatype py_exception = KeyError str

fun exception_str :: "py_exception \<Rightarrow> str" where
  "exception_str (KeyError k) = [39] @ k @ [39]"

definition has_key :: "(str \<times> 'v) list \<Rightarrow> str \<Rightarrow> bool" where
  "has_key d k = (map_of d k \<noteq> None)"

definition getitem :: "(str \<times> 'v) list \<Rightarrow> str \<Rightarrow> py_exception + 'v" where
  "getitem d k = (case map_of d k of None \<Rightarrow> Inl (KeyError k) | Some v \<Rightarrow> Inr v)"

definition bind_exn :: "py_exception + 'a \<Rightarrow> ('a \<Rightarrow> py_exception + 'b) \<Rightarrow> py_exception + 'b" where
  "bind_exn x f = (case x of Inl e \<Rightarrow> Inl e | Inr v \<Rightarrow> f v)"

subsection \<open>Request and response models\<close>

record ChatRequest =
  message :: str
  language :: str
  user_id :: "str option"

record ChatResponse =
  response :: str
  language :: str
  sources :: "(str \<times> str) list list"
  category :: "str option"
  confidence :: real

text \<open>
  The confidence is one of the three decimal literals of the source; no arithmetic is
  done on it, so the literals are kept as the numbers they denote.
\<close>

subsection \<open>The constant tables\<close>

definition SUPPORTED_LANGUAGES :: "(str \<times> str) list" where
  "SUPPORTED_LANGUAGES =
    [(ascii ''it'', ascii ''Italiano''),
     (ascii ''fr'', ascii ''Fran'' @ [231] @ ascii ''ais''),
     (ascii ''en'', ascii ''English''),
     (ascii ''wo'', ascii ''Wolof''),
     (ascii ''bm'', ascii ''Bambara''),
     (ascii ''ha'', ascii ''Hausa''),
     (ascii ''am'', ascii ''Amarico''),
     (ascii ''ti'', ascii ''Tigrinya''),
     (ascii ''lg'', ascii ''Lingala''),
     (ascii ''ff'', ascii ''Pulaar''),
     (ascii ''so'', ascii ''Soninke'')]"

definition answers_it :: "(str \<times> str) list" where
  "answers_it =
    [(ascii ''permesso_soggiorno'',
      ascii ''Per il permesso di soggiorno devi recarti in Questura con passaporto, foto tessera, marca da bollo da '' @ [8364] @ ascii ''16...''),
     (ascii ''lavoro'',
      ascii ''Per cercare lavoro in Italia puoi usare i centri per l'impiego, InfoJobs, agenzie interinali...''),
     (ascii ''casa'',
      ascii ''Per trovare casa puoi usare Immobiliare.it, Subito, Idealista o contattare associazioni locali...''),
     (ascii ''sanita'',
      ascii ''Il SSN garantisce cure gratuite: chiedi la tessera sanitaria alla ASL e scegli un medico di base...''),
     (ascii ''diritti'',
      ascii ''Hai diritto a: assistenza legale gratuita, protezione dalla discriminazione, accesso alla sanit'' @ [224] @ ascii '' e istruzione...''),
     (ascii ''default'',
      ascii ''Ciao! Sono JOKKO AI. Posso aiutarti su: permesso di soggiorno, lavoro, casa, sanit'' @ [224] @ ascii '', diritti. Dimmi pure!'')]"

definition answers_en :: "(str \<times> str) list" where
  "answers_en =
    [(ascii ''permesso_soggiorno'',
      ascii ''For residence permit, go to Questura with passport, ID photo, '' @ [8364] @ ascii ''16 tax stamp...''),
     (ascii ''lavoro'',
      ascii ''To find work in Italy: register at job centers, use InfoJobs, temp agencies...''),
     (ascii ''casa'',
      ascii ''To find a house, use Immobiliare.it, Idealista, or contact local associations...''),
     (ascii ''sanita'',
      ascii ''Italy provides free healthcare: get your health card at ASL and choose a GP...''),
     (ascii ''diritti'',
      ascii ''You have the right to free legal aid, education, work and healthcare...''),
     (ascii ''default'',
      ascii ''Hello! I'' @ [8217] @ ascii ''m JOKKO AI. I can help with: residence permit, work, housing, healthcare, rights.'')]"

definition answers_fr :: "(str \<times> str) list" where
  "answers_fr =
    [(ascii ''permesso_soggiorno'',
      ascii ''Pour le titre de s'' @ [233] @ ascii ''jour, allez '' @ [224] @ ascii '' la Questura avec passeport, photos, timbre fiscal de 16'' @ [8364] @ ascii ''...''),
     (ascii ''lavoro'',
      ascii ''Pour trouver du travail : centres d'emploi, InfoJobs, agences int'' @ [233] @ ascii ''rimaires...''),
     (ascii ''casa'',
      ascii ''Utilisez Immobiliare.it, Idealista ou contactez les associations locales...''),
     (ascii ''sanita'',
      ascii ''Le SSN fournit des soins gratuits : demandez votre carte sanitaire '' @ [224] @ ascii '' l'ASL...''),
     (ascii ''diritti'',
      ascii ''Vous avez droit '' @ [224] @ ascii '' : aide juridique, sant'' @ [233] @ ascii '', travail r'' @ [233] @ ascii ''gulier, '' @ [233] @ ascii ''ducation...''),
     (ascii ''default'',
      ascii ''Salut ! Je suis JOKKO AI. Je peux vous aider avec : s'' @ [233] @ ascii ''jour, travail, logement, sant'' @ [233] @ ascii '', droits.'')]"

definition SAMPLE_RESPONSES :: "(str \<times> (str \<times> str) list) list" where
  "SAMPLE_RESPONSES =
    [(ascii ''it'', answers_it),
     (ascii ''en'', answers_en),
     (ascii ''fr'', answers_fr)]"

subsection \<open>The chat handler\<close>

text \<open>
  The keyword lists of the five tests, in the order of the \<^verbatim>\<open>if\<close>/\<^verbatim>\<open>elif\<close> chain.
\<close>

definition keywords_permesso_soggiorno :: "str list" where
  "keywords_permesso_soggiorno =
     [ascii ''permesso'', ascii ''soggiorno'', ascii ''s'' @ [233] @ ascii ''jour'', ascii ''permit'']"

definition keywords_lavoro :: "str list" where
  "keywords_lavoro = [ascii ''lavoro'', ascii ''job'', ascii ''work'', ascii ''emploi'']"

definition keywords_casa :: "str list" where
  "keywords_casa = [ascii ''casa'', ascii ''house'', ascii ''logement'', ascii ''rent'']"

definition keywords_sanita :: "str list" where
  "keywords_sanita = [ascii ''salute'', ascii ''health'', ascii ''sant'' @ [233], ascii ''doctor'']"

definition keywords_diritti :: "str list" where
  "keywords_diritti = [ascii ''diritti'', ascii ''rights'', ascii ''droits'', ascii ''legal'']"

text \<open>
  The chain itself: the first test that holds picks the table key, the category label and
  the confidence; the lookup \<^verbatim>\<open>answers[key]\<close> may raise.
\<close>

definition classify :: "(str \<times> str) list \<Rightarrow> str \<Rightarrow> py_exception + (str \<times> str \<times> real)" where
  "classify answers msg =
     (if any_in msg keywords_permesso_soggiorno then
        bind_exn (getitem answers (ascii ''permesso_soggiorno''))
          (\<lambda>text. Inr (text, ascii ''permesso_soggiorno'', 0.9))
      else if any_in msg keywords_lavoro then
        bind_exn (getitem answers (ascii ''lavoro''))
          (\<lambda>text. Inr (text, ascii ''lavoro'', 0.85))
      else if any_in msg keywords_casa then
        bind_exn (getitem answers (ascii ''casa''))
          (\<lambda>text. Inr (text, ascii ''casa'', 0.85))
      else if any_in msg keywords_sanita then
        bind_exn (getitem answers (ascii ''sanita''))
          (\<lambda>text. Inr (text, ascii ''sanita'', 0.85))
      else if any_in msg keywords_diritti then
        bind_exn (getitem answers (ascii ''diritti''))
          (\<lambda>text. Inr (text, ascii ''diritti'', 0.85))
      else
        bind_exn (getitem answers (ascii ''default''))
          (\<lambda>text. Inr (text, ascii ''generale'', 0.7)))"

definition static_sources :: "(str \<times> str) list list" where
  "static_sources =
     [[(ascii ''title'', ascii ''JOKKO KB''), (ascii ''url'', ascii ''https://ym.vercel.app'')],
      [(ascii ''title'', ascii ''Ministero Interno''), (ascii ''url'', ascii ''https://www.interno.gov.it'')]]"

text \<open>
  The body of the \<^verbatim>\<open>try\<close> block, over the response table it reads. The table is an
  argument so that the \<^verbatim>\<open>except\<close> branch can be exercised; \<open>chat\<close> below fixes it
  to \<open>SAMPLE_RESPONSES\<close>.
\<close>

definition chat_body ::
  "(str \<times> (str \<times> str) list) list \<Rightarrow> (str \<Rightarrow> str) \<Rightarrow> ChatRequest \<Rightarrow> py_exception + ChatResponse" where
  "chat_body table unicode_lower chat_request =
     (let msg = lower unicode_lower (ChatRequest.message chat_request);
          lang = (if has_key table (ChatRequest.language chat_request)
                  then ChatRequest.language chat_request else ascii ''it'')
      in bind_exn (getitem table lang) (\<lambda>answers.
         bind_exn (classify answers msg) (\<lambda>(text, cat, conf).
           Inr \<lparr>response = text, language = lang, sources = static_sources,
                category = Some cat, confidence = conf\<rparr>)))"

text \<open>
  What a call of the handler does: it returns a response, raises the
  \<^verbatim>\<open>HTTPException\<close> of the \<^verbatim>\<open>except\<close> branch (status code and detail), or lets
  another exception through.
\<close>

datatype outcome =
  Returned ChatResponse
| Raised_HTTPException nat str
| Raised py_exception

definition chat_on ::
  "(str \<times> (str \<times> str) list) list \<Rightarrow> (str \<Rightarrow> str) \<Rightarrow> ChatRequest \<Rightarrow> outcome" where
  "chat_on table unicode_lower chat_request =
     (case chat_body table unicode_lower chat_request of
        Inr r \<Rightarrow> Returned r
      | Inl e \<Rightarrow> Raised_HTTPException 500 (ascii ''Errore: '' @ exception_str e))"

definition chat :: "(str \<Rightarrow> str) \<Rightarrow> ChatRequest \<Rightarrow> outcome" where
  "chat unicode_lower chat_request = chat_on SAMPLE_RESPONSES unicode_lower chat_request"

subsection \<open>The health endpoint\<close>

record HealthResponse =
  status :: str
  health_message :: str
  languages :: "(str \<times> str) list"

definition health :: HealthResponse where
  "health = \<lparr>status = ascii ''ok'', health_message = ascii ''JOKKO AI funzionante'',
             languages = SUPPORTED_LANGUAGES\<rparr>"

subsection \<open>The words of the specification\<close>

text \<open>
  The specification describes the chain as an ordered list of rules (keyword list,
  category, confidence) of which the first match wins, with the fallback category
  \<^verbatim>\<open>generale\<close> read from the table key \<^verbatim>\<open>default\<close>. \<open>first_match\<close> follows those
  words and gives (table key, category, confidence); it is compared with \<open>classify\<close>
  below. The effective language is the requested one when the response table has it,
  and \<^verbatim>\<open>it\<close> otherwise.
\<close>

definition rules :: "(str list \<times> str \<times> real) list" where
  "rules =
     [(keywords_permesso_soggiorno, ascii ''permesso_soggiorno'', 0.9),
      (keywords_lavoro, ascii ''lavoro'', 0.85),
      (keywords_casa, ascii ''casa'', 0.85),
      (keywords_sanita, ascii ''sanita'', 0.85),
      (keywords_diritti, ascii ''diritti'', 0.85)]"

definition first_match :: "str \<Rightarrow> str \<times> str \<times> real" where
  "first_match msg =
     (case find (\<lambda>(ks, c, f). any_in msg ks) rules of
        Some (ks, c, f) \<Rightarrow> (c, c, f)
      | None \<Rightarrow> (ascii ''default'', ascii ''generale'', 0.7))"

definition all_keywords :: "str list" where
  "all_keywords = concat (map fst rules)"

definition response_keys :: "str list" where
  "response_keys = [ascii ''permesso_soggiorno'', ascii ''lavoro'', ascii ''casa'',
                    ascii ''sanita'', ascii ''diritti'', ascii ''default'']"

definition effective_language :: "str \<Rightarrow> str" where
  "effective_language l = (if has_key SAMPLE_RESPONSES l then l else ascii ''it'')"

section \<open>Properties\<close>

subsection \<open>Strings and tables\<close>

lemma ascii_eq_iff [simp]: "ascii a = ascii b \<longleftrightarrow> a = b"
  unfolding ascii_def by (simp add: inj_map_eq_map inj_on_def)

text \<open>The two recursive tests compute the usual notions of prefix and of substring.\<close>

lemma startswith_iff: "startswith s k \<longleftrightarrow> (\<exists>q. s = k @ q)"
  by (induction s k rule: startswith.induct) auto

lemma contains_iff: "contains s k \<longleftrightarrow> (\<exists>p q. s = p @ k @ q)"
proof (induction s)
  case Nil
  then show ?case by (cases k) auto
next
  case (Cons d s)
  show ?case
  proof
    assume "contains (d # s) k"
    then consider "startswith (d # s) k" | "contains s k" by auto
    then show "\<exists>p q. d # s = p @ k @ q"
    proof cases
      case 1
      then obtain q where "d # s = k @ q" using startswith_iff by blast
      then have "d # s = [] @ k @ q" by simp
      then show ?thesis by blast
    next
      case 2
      then obtain p q where "s = p @ k @ q" using Cons.IH by blast
      then have "d # s = (d # p) @ k @ q" by simp
      then show ?thesis by blast
    qed
  next
    assume "\<exists>p q. d # s = p @ k @ q"
    then obtain p q where pq: "d # s = p @ k @ q" by blast
    show "contains (d # s) k"
    proof (cases p)
      case Nil
      with pq have "startswith (d # s) k" using startswith_iff by auto
      then show ?thesis by simp
    next
      case (Cons a p')
      with pq have "s = p' @ k @ q" by simp
      then have "contains s k" using Cons.IH by blast
      then show ?thesis by simp
    qed
  qed
qed

text \<open>
  On an ASCII message lowercasing is letter by letter, so a keyword that occurs in the
  message as it is written (the keywords are in lower case) occurs in the lowercased
  message too.
\<close>

lemma contains_lower_ascii:
  assumes "list_all (\<lambda>c. c < 128) m" and "contains m k" and "map lower_ascii k = k"
  shows "contains (lower ul m) k"
proof -
  from assms(2) obtain p q where "m = p @ k @ q" using contains_iff by blast
  then have "map lower_ascii m = map lower_ascii p @ k @ map lower_ascii q"
    using assms(3) by simp
  then have "contains (map lower_ascii m) k" using contains_iff by blast
  with assms(1) show ?thesis by (simp add: lower_def)
qed

lemma table_lookup:
  "map_of SAMPLE_RESPONSES (ascii ''it'') = Some answers_it"
  "map_of SAMPLE_RESPONSES (ascii ''en'') = Some answers_en"
  "map_of SAMPLE_RESPONSES (ascii ''fr'') = Some answers_fr"
  by (simp_all add: SAMPLE_RESPONSES_def)

lemma has_key_table:
  "has_key SAMPLE_RESPONSES l \<longleftrightarrow> l = ascii ''it'' \<or> l = ascii ''en'' \<or> l = ascii ''fr''"
  by (auto simp: has_key_def SAMPLE_RESPONSES_def)

lemma effective_language_cases:
  "effective_language l = ascii ''it'' \<or> effective_language l = ascii ''en'' \<or>
   effective_language l = ascii ''fr''"
  by (auto simp: effective_language_def has_key_table)

lemma answers_complete:
  assumes "k \<in> set response_keys"
  shows "\<exists>t. map_of answers_it k = Some t"
    and "\<exists>t. map_of answers_en k = Some t"
    and "\<exists>t. map_of answers_fr k = Some t"
  using assms by (auto simp: response_keys_def answers_it_def answers_en_def answers_fr_def)

lemma table_complete:
  assumes "k \<in> set response_keys"
  shows "\<exists>answers t. map_of SAMPLE_RESPONSES (effective_language l) = Some answers \<and>
                      map_of answers k = Some t"
  using effective_language_cases [of l] answers_complete [OF assms]
  by (auto simp: table_lookup)

subsection \<open>The chain is the first matching rule\<close>

lemma classify_first_match:
  "classify answers msg =
     (case first_match msg of (key, c, f) \<Rightarrow>
        bind_exn (getitem answers key) (\<lambda>text. Inr (text, c, f)))"
  by (simp add: classify_def first_match_def rules_def)

lemma first_match_key: "fst (first_match msg) \<in> set response_keys"
  by (simp add: first_match_def rules_def response_keys_def)

lemma chat_body_eq:
  assumes "map_of SAMPLE_RESPONSES (effective_language (ChatRequest.language r)) = Some answers"
      and "map_of answers (fst (first_match (lower ul (message r)))) = Some t"
  shows "chat_body SAMPLE_RESPONSES ul r =
     Inr \<lparr>response = t, language = effective_language (ChatRequest.language r),
          sources = static_sources,
          category = Some (fst (snd (first_match (lower ul (message r))))),
          confidence = snd (snd (first_match (lower ul (message r))))\<rparr>"
proof -
  obtain key c f where fm: "first_match (lower ul (message r)) = (key, c, f)"
    by (cases "first_match (lower ul (message r))") auto
  with assms(2) have "map_of answers key = Some t" by simp
  with assms(1) fm show ?thesis
    by (simp add: chat_body_def Let_def effective_language_def [symmetric] getitem_def
          bind_exn_def classify_first_match)
qed

lemma chat_body_returns:
  "\<exists>answers t.
     map_of SAMPLE_RESPONSES (effective_language (ChatRequest.language r)) = Some answers \<and>
     map_of answers (fst (first_match (lower ul (message r)))) = Some t \<and>
     chat_body SAMPLE_RESPONSES ul r =
       Inr \<lparr>response = t, language = effective_language (ChatRequest.language r),
            sources = static_sources,
            category = Some (fst (snd (first_match (lower ul (message r))))),
            confidence = snd (snd (first_match (lower ul (message r))))\<rparr>"
  using table_complete [OF first_match_key] chat_body_eq by blast

lemma chat_returns:
  "\<exists>answers t.
     map_of SAMPLE_RESPONSES (effective_language (ChatRequest.language r)) = Some answers \<and>
     map_of answers (fst (first_match (lower ul (message r)))) = Some t \<and>
     chat ul r =
       Returned \<lparr>response = t, language = effective_language (ChatRequest.language r),
            sources = static_sources,
            category = Some (fst (snd (first_match (lower ul (message r))))),
            confidence = snd (snd (first_match (lower ul (message r))))\<rparr>"
proof -
  obtain answers t where
    "map_of SAMPLE_RESPONSES (effective_language (ChatRequest.language r)) = Some answers"
    "map_of answers (fst (first_match (lower ul (message r)))) = Some t"
    "chat_body SAMPLE_RESPONSES ul r =
       Inr \<lparr>response = t, language = effective_language (ChatRequest.language r),
            sources = static_sources,
            category = Some (fst (snd (first_match (lower ul (message r))))),
            confidence = snd (snd (first_match (lower ul (message r))))\<rparr>"
    using chat_body_returns [of r ul] by blast
  then show ?thesis by (simp add: chat_def chat_on_def)
qed

lemmas keywords_defs = keywords_permesso_soggiorno_def keywords_lavoro_def keywords_casa_def
  keywords_sanita_def keywords_diritti_def

lemma first_match_cases:
  "first_match msg \<in> set (map (\<lambda>(ks, c, f). (c, c, f)) rules) \<or>
   first_match msg = (ascii ''default'', ascii ''generale'', 0.7)"
  by (simp add: first_match_def rules_def)

lemma any_in_all_keywords:
  "any_in msg all_keywords \<longleftrightarrow>
     any_in msg keywords_permesso_soggiorno \<or> any_in msg keywords_lavoro \<or>
     any_in msg keywords_casa \<or> any_in msg keywords_sanita \<or> any_in msg keywords_diritti"
  by (simp add: all_keywords_def rules_def any_in_def)

lemma first_match_none:
  assumes "\<not> any_in msg all_keywords"
  shows "first_match msg = (ascii ''default'', ascii ''generale'', 0.7)"
  using assms by (simp add: any_in_all_keywords first_match_def rules_def)

lemma first_match_permesso:
  assumes "any_in msg keywords_permesso_soggiorno"
  shows "first_match msg = (ascii ''permesso_soggiorno'', ascii ''permesso_soggiorno'', 0.9)"
  using assms by (simp add: first_match_def rules_def)

lemma first_match_only:
  assumes "(ks, c, f) \<in> set rules"
      and "any_in msg ks"
      and "\<forall>(ks', c', f') \<in> set rules. c' \<noteq> c \<longrightarrow> \<not> any_in msg ks'"
  shows "first_match msg = (c, c, f)"
  using assms by (auto simp: first_match_def rules_def)

lemma effective_language_supported:
  "effective_language (ascii ''it'') = ascii ''it''"
  "effective_language (ascii ''en'') = ascii ''en''"
  "effective_language (ascii ''fr'') = ascii ''fr''"
  by (simp_all add: effective_language_def has_key_table)

subsection \<open>Keywords\<close>

text \<open>
  Every keyword, sent alone as the lowercased message, is classified under its own
  category: no keyword holds a keyword of another category.
\<close>

lemma first_match_keywords:
  "first_match (ascii ''permesso'') = (ascii ''permesso_soggiorno'', ascii ''permesso_soggiorno'', 0.9)"
  "first_match (ascii ''soggiorno'') = (ascii ''permesso_soggiorno'', ascii ''permesso_soggiorno'', 0.9)"
  "first_match (ascii ''s'' @ [233] @ ascii ''jour'') = (ascii ''permesso_soggiorno'', ascii ''permesso_soggiorno'', 0.9)"
  "first_match (ascii ''permit'') = (ascii ''permesso_soggiorno'', ascii ''permesso_soggiorno'', 0.9)"
  "first_match (ascii ''lavoro'') = (ascii ''lavoro'', ascii ''lavoro'', 0.85)"
  "first_match (ascii ''job'') = (ascii ''lavoro'', ascii ''lavoro'', 0.85)"
  "first_match (ascii ''work'') = (ascii ''lavoro'', ascii ''lavoro'', 0.85)"
  "first_match (ascii ''emploi'') = (ascii ''lavoro'', ascii ''lavoro'', 0.85)"
  "first_match (ascii ''casa'') = (ascii ''casa'', ascii ''casa'', 0.85)"
  "first_match (ascii ''house'') = (ascii ''casa'', ascii ''casa'', 0.85)"
  "first_match (ascii ''logement'') = (ascii ''casa'', ascii ''casa'', 0.85)"
  "first_match (ascii ''rent'') = (ascii ''casa'', ascii ''casa'', 0.85)"
  "first_match (ascii ''salute'') = (ascii ''sanita'', ascii ''sanita'', 0.85)"
  "first_match (ascii ''health'') = (ascii ''sanita'', ascii ''sanita'', 0.85)"
  "first_match (ascii ''sant'' @ [233]) = (ascii ''sanita'', ascii ''sanita'', 0.85)"
  "first_match (ascii ''doctor'') = (ascii ''sanita'', ascii ''sanita'', 0.85)"
  "first_match (ascii ''diritti'') = (ascii ''diritti'', ascii ''diritti'', 0.85)"
  "first_match (ascii ''rights'') = (ascii ''diritti'', ascii ''diritti'', 0.85)"
  "first_match (ascii ''droits'') = (ascii ''diritti'', ascii ''diritti'', 0.85)"
  "first_match (ascii ''legal'') = (ascii ''diritti'', ascii ''diritti'', 0.85)"
  by (simp_all add: first_match_def rules_def any_in_def keywords_defs ascii_def)


lemma keyword_alone:
  assumes "(ks, c, f) \<in> set rules" and "k \<in> set ks"
  shows "first_match k = (c, c, f)"
  using assms first_match_keywords by (auto simp: rules_def keywords_defs)


text \<open>
  On an ASCII message the five tests on the lowercased message hold whenever they hold
  on the message as written: the keywords are in lower case, and the two keywords with
  an e-acute cannot occur in an ASCII message.
\<close>

lemma lower_ascii_keywords:
  "map lower_ascii (ascii ''permesso'') = ascii ''permesso''"
  "map lower_ascii (ascii ''soggiorno'') = ascii ''soggiorno''"
  "map lower_ascii (ascii ''permit'') = ascii ''permit''"
  "map lower_ascii (ascii ''lavoro'') = ascii ''lavoro''"
  "map lower_ascii (ascii ''job'') = ascii ''job''"
  "map lower_ascii (ascii ''work'') = ascii ''work''"
  "map lower_ascii (ascii ''emploi'') = ascii ''emploi''"
  "map lower_ascii (ascii ''casa'') = ascii ''casa''"
  "map lower_ascii (ascii ''house'') = ascii ''house''"
  "map lower_ascii (ascii ''logement'') = ascii ''logement''"
  "map lower_ascii (ascii ''rent'') = ascii ''rent''"
  "map lower_ascii (ascii ''salute'') = ascii ''salute''"
  "map lower_ascii (ascii ''health'') = ascii ''health''"
  "map lower_ascii (ascii ''doctor'') = ascii ''doctor''"
  "map lower_ascii (ascii ''diritti'') = ascii ''diritti''"
  "map lower_ascii (ascii ''rights'') = ascii ''rights''"
  "map lower_ascii (ascii ''droits'') = ascii ''droits''"
  "map lower_ascii (ascii ''legal'') = ascii ''legal''"
  by (simp_all add: ascii_def lower_ascii_def)


lemma contains_subset: "contains m k \<Longrightarrow> set k \<subseteq> set m"
  using contains_iff [of m k] by auto

lemma keyword_cases:
  assumes "(ks, c, f) \<in> set rules" and "k \<in> set ks"
  shows "map lower_ascii k = k \<or> 233 \<in> set k"
  using assms lower_ascii_keywords by (auto simp: rules_def keywords_defs)

lemma any_in_lower_ascii:
  assumes ascii: "list_all (\<lambda>c. c < 128) m"
      and rule: "(ks, c, f) \<in> set rules"
      and any: "any_in m ks"
  shows "any_in (lower ul m) ks"
proof -
  from any obtain k where k: "k \<in> set ks" "contains m k"
    by (auto simp: any_in_def list_ex_iff)
  from k(2) ascii have small: "\<forall>x \<in> set k. x < 128"
    using contains_subset [of m k] by (auto simp: list_all_iff)
  then have "233 \<notin> set k" by auto
  with keyword_cases [OF rule k(1)] have "map lower_ascii k = k" by simp
  with ascii k(2) have "contains (lower ul m) k"
    by (rule contains_lower_ascii)
  with k(1) show ?thesis by (auto simp: any_in_def list_ex_iff)
qed

subsection \<open>The source citations\<close>

text \<open>
  Claim C6. For every chat request, whatever its message, language and user_id, the
  handler returns a response whose \<^verbatim>\<open>sources\<close> field is the list of the two static
  entries, JOKKO KB (https://ym.vercel.app) first and Ministero Interno
  (https://www.interno.gov.it) second.
\<close>

theorem chat_sources_static:
  "\<exists>resp. chat ul r = Returned resp \<and>
     sources resp =
       [[(ascii ''title'', ascii ''JOKKO KB''), (ascii ''url'', ascii ''https://ym.vercel.app'')],
        [(ascii ''title'', ascii ''Ministero Interno''),
         (ascii ''url'', ascii ''https://www.interno.gov.it'')]]"
proof -
  obtain resp where "chat ul r = Returned resp" "sources resp = static_sources"
    using chat_returns [of r ul] by force
  then show ?thesis by (simp add: static_sources_def)
qed

subsection \<open>The health endpoint\<close>

text \<open>
  Claim C10. The health endpoint takes no input and reads nothing but the constant
  language map: its answer has status \<^verbatim>\<open>ok\<close> and carries the whole
  \<^verbatim>\<open>SUPPORTED_LANGUAGES\<close> map, which has eleven entries under eleven different codes.
\<close>

theorem health_ok:
  "status health = ascii ''ok'' \<and>
   languages health =
     [(ascii ''it'', ascii ''Italiano''),
      (ascii ''fr'', ascii ''Fran'' @ [231] @ ascii ''ais''),
      (ascii ''en'', ascii ''English''),
      (ascii ''wo'', ascii ''Wolof''),
      (ascii ''bm'', ascii ''Bambara''),
      (ascii ''ha'', ascii ''Hausa''),
      (ascii ''am'', ascii ''Amarico''),
      (ascii ''ti'', ascii ''Tigrinya''),
      (ascii ''lg'', ascii ''Lingala''),
      (ascii ''ff'', ascii ''Pulaar''),
      (ascii ''so'', ascii ''Soninke'')] \<and>
   languages health = SUPPORTED_LANGUAGES \<and>
   length (languages health) = 11 \<and>
   distinct (map fst (languages health))"
  by (simp add: health_def SUPPORTED_LANGUAGES_def)

subsection \<open>The user identifier\<close>

text \<open>
  Claim C8. The \<^verbatim>\<open>user_id\<close> field has no effect: two requests with the same message
  and the same language, and any two values of \<^verbatim>\<open>user_id\<close> (absent is \<open>None\<close>),
  have the same outcome, hence responses equal in every field.
\<close>

theorem chat_ignores_user_id:
  "chat ul \<lparr>message = m, ChatRequest.language = l, user_id = u1\<rparr> =
   chat ul \<lparr>message = m, ChatRequest.language = l, user_id = u2\<rparr>"
  by (simp add: chat_def chat_on_def chat_body_def)

subsection \<open>The handler never fails\<close>

text \<open>
  Claim C7. For every message and every language the body of the handler ends in a
  response, so the handler returns it and the \<^verbatim>\<open>except\<close> branch is not taken; and
  every language table of \<^verbatim>\<open>SAMPLE_RESPONSES\<close> has an entry under each of the six keys
  the chain can select, \<^verbatim>\<open>default\<close> among them.
\<close>

theorem chat_never_fails:
  "(\<exists>resp. chat_body SAMPLE_RESPONSES ul r = Inr resp \<and> chat ul r = Returned resp) \<and>
   list_all (\<lambda>(l, answers). list_all (\<lambda>k. has_key answers k) response_keys) SAMPLE_RESPONSES"
proof
  show "\<exists>resp. chat_body SAMPLE_RESPONSES ul r = Inr resp \<and> chat ul r = Returned resp"
    using chat_body_returns [of r ul] by (auto simp: chat_def chat_on_def)
  show "list_all (\<lambda>(l, answers). list_all (\<lambda>k. has_key answers k) response_keys) SAMPLE_RESPONSES"
    by (simp add: SAMPLE_RESPONSES_def response_keys_def has_key_def answers_it_def
          answers_en_def answers_fr_def)
qed

subsection \<open>Evaluating the handler on a request\<close>

text \<open>
  The outcome of a request follows from four facts: the effective language, its table,
  the first matching rule on the lowercased message, and the table entry under the key
  of that rule.
\<close>

lemma chat_eval:
  assumes "effective_language l = l'"
      and "map_of SAMPLE_RESPONSES l' = Some answers"
      and "first_match (lower ul m) = (key, c, f)"
      and "map_of answers key = Some t"
  shows "chat ul \<lparr>message = m, ChatRequest.language = l, user_id = u\<rparr> =
           Returned \<lparr>response = t, language = l', sources = static_sources,
                      category = Some c, confidence = f\<rparr>"
  using chat_body_eq [of "\<lparr>message = m, ChatRequest.language = l, user_id = u\<rparr>" answers ul t] assms
  by (simp add: chat_def chat_on_def)

lemmas eval_defs = first_match_def rules_def lower_def lower_ascii_def any_in_def keywords_defs ascii_def

lemma first_match_hello_there:
  "first_match (lower ul (ascii ''hello there'')) = (ascii ''default'', ascii ''generale'', 0.7)"
  by (simp add: eval_defs)

lemma first_match_permesso_lavoro:
  "first_match (lower ul (ascii ''permesso lavoro'')) =
     (ascii ''permesso_soggiorno'', ascii ''permesso_soggiorno'', 0.9)"
  by (simp add: eval_defs)

lemma first_match_casa:
  "first_match (lower ul (ascii ''casa'')) = (ascii ''casa'', ascii ''casa'', 0.85)"
  by (simp add: eval_defs)

lemma effective_language_de: "effective_language (ascii ''de'') = ascii ''it''"
  by (simp add: effective_language_def has_key_table)

lemma chat_hello_there:
  "chat ul \<lparr>message = ascii ''hello there'', ChatRequest.language = ascii ''en'', user_id = u\<rparr> =
   Returned \<lparr>response = ascii ''Hello! I'' @ [8217] @ ascii ''m JOKKO AI. I can help with: residence permit, work, housing, healthcare, rights.'',
     language = ascii ''en'', sources = static_sources, category = Some (ascii ''generale''),
     confidence = 0.7\<rparr>"
  by (rule chat_eval [OF effective_language_supported(2) table_lookup(2) first_match_hello_there])
     (simp add: answers_en_def)

lemma chat_permesso_lavoro:
  "chat ul \<lparr>message = ascii ''permesso lavoro'', ChatRequest.language = ascii ''en'', user_id = u\<rparr> =
   Returned \<lparr>response = ascii ''For residence permit, go to Questura with passport, ID photo, '' @ [8364] @ ascii ''16 tax stamp...'',
     language = ascii ''en'', sources = static_sources,
     category = Some (ascii ''permesso_soggiorno''), confidence = 0.9\<rparr>"
  by (rule chat_eval [OF effective_language_supported(2) table_lookup(2) first_match_permesso_lavoro])
     (simp add: answers_en_def)

lemma chat_casa_de:
  "chat ul \<lparr>message = ascii ''casa'', ChatRequest.language = ascii ''de'', user_id = u\<rparr> =
   Returned \<lparr>response = ascii ''Per trovare casa puoi usare Immobiliare.it, Subito, Idealista o contattare associazioni locali...'',
     language = ascii ''it'', sources = static_sources,
     category = Some (ascii ''casa''), confidence = 0.85\<rparr>"
  by (rule chat_eval [OF effective_language_de table_lookup(1) first_match_casa])
     (simp add: answers_it_def)

lemma first_match_legal_rights:
  "first_match (lower ul (ascii ''My LEGAL rights'')) = (ascii ''diritti'', ascii ''diritti'', 0.85)"
  by (simp add: eval_defs)

lemma effective_language_so: "effective_language (ascii ''so'') = ascii ''it''"
  by (simp add: effective_language_def has_key_table)

subsection \<open>One category\<close>

text \<open>
  Claim C1. Let \<open>l\<close> be a supported language, that is a key of the response table,
  and \<open>c\<close> a category with keywords, that is one of the five rules. If the lowercased
  message contains a keyword of \<open>c\<close> and no keyword of any other category (a keyword
  unique to \<open>c\<close>: with keywords of two categories in the message the earlier rule
  wins, see C2), then the handler returns the category \<open>c\<close> and, as response text, the
  very string the response table stores for \<open>l\<close> and \<open>c\<close>. The sixth category,
  \<^verbatim>\<open>generale\<close>, has no keyword; C4 is about it.
\<close>

theorem chat_unique_keyword:
  assumes "has_key SAMPLE_RESPONSES l"
      and "(ks, c, f) \<in> set rules"
      and "any_in (lower ul m) ks"
      and "\<forall>(ks', c', f') \<in> set rules. c' \<noteq> c \<longrightarrow> \<not> any_in (lower ul m) ks'"
  shows "\<exists>answers text.
           map_of SAMPLE_RESPONSES l = Some answers \<and> map_of answers c = Some text \<and>
           chat ul \<lparr>message = m, ChatRequest.language = l, user_id = u\<rparr> =
             Returned \<lparr>response = text, language = l, sources = static_sources,
                        category = Some c, confidence = f\<rparr>"
proof -
  have fm: "first_match (lower ul m) = (c, c, f)"
    using first_match_only [OF assms(2,3,4)] .
  have el: "effective_language l = l"
    using assms(1) by (simp add: effective_language_def)
  from chat_returns [of "\<lparr>message = m, ChatRequest.language = l, user_id = u\<rparr>" ul]
  show ?thesis by (simp add: fm el)
qed

text \<open>
  The theorem at the French table and the health rule, on a message in capitals.
\<close>

theorem chat_unique_keyword_witness:
  "has_key SAMPLE_RESPONSES (ascii ''fr'') \<and>
   (keywords_sanita, ascii ''sanita'', 0.85) \<in> set rules \<and>
   any_in (lower (\<lambda>s. s) (ascii ''I need a DOCTOR'')) keywords_sanita \<and>
   chat (\<lambda>s. s) \<lparr>message = ascii ''I need a DOCTOR'', ChatRequest.language = ascii ''fr'',
                   user_id = None\<rparr> =
     Returned \<lparr>response = ascii ''Le SSN fournit des soins gratuits : demandez votre carte sanitaire '' @ [224] @ ascii '' l'ASL...'',
       language = ascii ''fr'', sources = static_sources,
       category = Some (ascii ''sanita''), confidence = 0.85\<rparr>"
proof -
  have h1: "has_key SAMPLE_RESPONSES (ascii ''fr'')"
    by (simp add: has_key_table)
  have h2: "(keywords_sanita, ascii ''sanita'', 0.85) \<in> set rules"
    by (simp add: rules_def)
  have h3: "any_in (lower (\<lambda>s. s) (ascii ''I need a DOCTOR'')) keywords_sanita"
    by (simp add: eval_defs)
  have h4: "\<forall>(ks', c', f') \<in> set rules. c' \<noteq> ascii ''sanita'' \<longrightarrow>
              \<not> any_in (lower (\<lambda>s. s) (ascii ''I need a DOCTOR'')) ks'"
    by (simp add: eval_defs)
  have t: "map_of answers_fr (ascii ''sanita'') =
      Some (ascii ''Le SSN fournit des soins gratuits : demandez votre carte sanitaire '' @ [224] @ ascii '' l'ASL...'')"
    by (simp add: answers_fr_def)
  from chat_unique_keyword [OF h1 h2 h3 h4, of None] h1 h2 h3 t
  show ?thesis by (auto simp: table_lookup)
qed

subsection \<open>Priority\<close>

text \<open>
  Claim C2. The keyword lists are tested in a fixed order and the first match wins: the
  category and the confidence of the response are those of the first rule of the ordered
  list \<open>rules\<close> that matches the lowercased message (\<open>first_match\<close>). So a message
  with a residence-permit keyword and a work keyword gets the category
  \<^verbatim>\<open>permesso_soggiorno\<close> with confidence 0.9, whatever the language; and the message
  \<^verbatim>\<open>permesso lavoro\<close> with language \<^verbatim>\<open>en\<close> gets that category, that confidence
  and the English residence-permit text.
\<close>

theorem chat_first_match_wins:
  "(any_in (lower ul m) keywords_permesso_soggiorno \<and> any_in (lower ul m) keywords_lavoro \<longrightarrow>
      (\<exists>resp. chat ul \<lparr>message = m, ChatRequest.language = l, user_id = u\<rparr> = Returned resp \<and>
         category resp = Some (ascii ''permesso_soggiorno'') \<and> confidence resp = 0.9)) \<and>
   (\<exists>resp. chat ul \<lparr>message = m, ChatRequest.language = l, user_id = u\<rparr> = Returned resp \<and>
      category resp = Some (fst (snd (first_match (lower ul m)))) \<and>
      confidence resp = snd (snd (first_match (lower ul m)))) \<and>
   chat ul \<lparr>message = ascii ''permesso lavoro'', ChatRequest.language = ascii ''en'', user_id = u\<rparr> =
     Returned \<lparr>response = ascii ''For residence permit, go to Questura with passport, ID photo, '' @ [8364] @ ascii ''16 tax stamp...'',
       language = ascii ''en'', sources = static_sources,
       category = Some (ascii ''permesso_soggiorno''), confidence = 0.9\<rparr>"
proof -
  let ?r = "\<lparr>message = m, ChatRequest.language = l, user_id = u\<rparr>"
  have first: "\<exists>resp. chat ul ?r = Returned resp \<and>
      category resp = Some (fst (snd (first_match (lower ul m)))) \<and>
      confidence resp = snd (snd (first_match (lower ul m)))"
    using chat_returns [of ?r ul] by force
  have "\<exists>resp. chat ul ?r = Returned resp \<and>
         category resp = Some (ascii ''permesso_soggiorno'') \<and> confidence resp = 0.9"
    if "any_in (lower ul m) keywords_permesso_soggiorno"
    using first first_match_permesso [OF that] by simp
  with first chat_permesso_lavoro show ?thesis by blast
qed

theorem chat_first_match_wins_witness:
  "any_in (lower (\<lambda>s. s) (ascii ''Work PERMIT'')) keywords_permesso_soggiorno \<and>
   any_in (lower (\<lambda>s. s) (ascii ''Work PERMIT'')) keywords_lavoro \<and>
   (\<exists>resp. chat (\<lambda>s. s) \<lparr>message = ascii ''Work PERMIT'', ChatRequest.language = ascii ''fr'',
                         user_id = None\<rparr> = Returned resp \<and>
      category resp = Some (ascii ''permesso_soggiorno'') \<and> confidence resp = 0.9)"
proof -
  have h1: "any_in (lower (\<lambda>s. s) (ascii ''Work PERMIT'')) keywords_permesso_soggiorno"
    by (simp add: eval_defs)
  have h2: "any_in (lower (\<lambda>s. s) (ascii ''Work PERMIT'')) keywords_lavoro"
    by (simp add: eval_defs)
  from h1 h2 chat_first_match_wins [of "\<lambda>s. s" "ascii ''Work PERMIT''" "ascii ''fr''" None]
  show ?thesis by blast
qed

subsection \<open>Unsupported languages\<close>

text \<open>
  Claim C3. When the requested language code is no key of the response table, then for
  every message the \<^verbatim>\<open>language\<close> field of the response is \<^verbatim>\<open>it\<close>, the response
  text is the entry of the Italian table under the selected key, the category is the
  selected one, and the whole response is the one the same request gets with language
  \<^verbatim>\<open>it\<close>. The message \<^verbatim>\<open>casa\<close> with language \<^verbatim>\<open>de\<close> gets language \<^verbatim>\<open>it\<close>
  and the Italian housing text.
\<close>

theorem chat_unsupported_language:
  "(\<not> has_key SAMPLE_RESPONSES l \<longrightarrow>
      (\<exists>resp. chat ul \<lparr>message = m, ChatRequest.language = l, user_id = u\<rparr> = Returned resp \<and>
         ChatResponse.language resp = ascii ''it'' \<and>
         map_of answers_it (fst (first_match (lower ul m))) = Some (response resp) \<and>
         category resp = Some (fst (snd (first_match (lower ul m)))) \<and>
         chat ul \<lparr>message = m, ChatRequest.language = ascii ''it'', user_id = u\<rparr> = Returned resp)) \<and>
   chat ul \<lparr>message = ascii ''casa'', ChatRequest.language = ascii ''de'', user_id = u\<rparr> =
     Returned \<lparr>response = ascii ''Per trovare casa puoi usare Immobiliare.it, Subito, Idealista o contattare associazioni locali...'',
       language = ascii ''it'', sources = static_sources,
       category = Some (ascii ''casa''), confidence = 0.85\<rparr>"
proof -
  have "\<exists>resp. chat ul \<lparr>message = m, ChatRequest.language = l, user_id = u\<rparr> = Returned resp \<and>
         ChatResponse.language resp = ascii ''it'' \<and>
         map_of answers_it (fst (first_match (lower ul m))) = Some (response resp) \<and>
         category resp = Some (fst (snd (first_match (lower ul m)))) \<and>
         chat ul \<lparr>message = m, ChatRequest.language = ascii ''it'', user_id = u\<rparr> = Returned resp"
    if no: "\<not> has_key SAMPLE_RESPONSES l"
  proof -
    have el: "effective_language l = ascii ''it''"
      using no by (simp add: effective_language_def)
    from chat_returns [of "\<lparr>message = m, ChatRequest.language = l, user_id = u\<rparr>" ul]
         chat_returns [of "\<lparr>message = m, ChatRequest.language = ascii ''it'', user_id = u\<rparr>" ul]
    show ?thesis
      by (auto simp: el effective_language_supported table_lookup)
  qed
  with chat_casa_de show ?thesis by blast
qed

theorem chat_unsupported_language_witness:
  "\<not> has_key SAMPLE_RESPONSES (ascii ''wo'') \<and>
   (\<exists>resp. chat (\<lambda>s. s) \<lparr>message = ascii ''Rent'', ChatRequest.language = ascii ''wo'',
                         user_id = None\<rparr> = Returned resp \<and>
      ChatResponse.language resp = ascii ''it'' \<and>
      chat (\<lambda>s. s) \<lparr>message = ascii ''Rent'', ChatRequest.language = ascii ''it'',
                     user_id = None\<rparr> = Returned resp)"
proof -
  have h: "\<not> has_key SAMPLE_RESPONSES (ascii ''wo'')"
    by (simp add: has_key_table)
  from h chat_unsupported_language [of "ascii ''wo''" "\<lambda>s. s" "ascii ''Rent''" None]
  show ?thesis by blast
qed

subsection \<open>No keyword\<close>

text \<open>
  Claim C4. When the lowercased message contains none of the keywords of any category,
  the response has category \<^verbatim>\<open>generale\<close>, confidence 0.7, and as text the entry
  \<^verbatim>\<open>default\<close> of the table of the effective language. The message
  \<^verbatim>\<open>hello there\<close> with language \<^verbatim>\<open>en\<close> gets \<^verbatim>\<open>generale\<close>, 0.7 and the
  English default greeting.
\<close>

theorem chat_no_keyword:
  "(\<not> any_in (lower ul m) all_keywords \<longrightarrow>
      (\<exists>resp answers.
         chat ul \<lparr>message = m, ChatRequest.language = l, user_id = u\<rparr> = Returned resp \<and>
         category resp = Some (ascii ''generale'') \<and> confidence resp = 0.7 \<and>
         ChatResponse.language resp = effective_language l \<and>
         map_of SAMPLE_RESPONSES (effective_language l) = Some answers \<and>
         map_of answers (ascii ''default'') = Some (response resp))) \<and>
   chat ul \<lparr>message = ascii ''hello there'', ChatRequest.language = ascii ''en'', user_id = u\<rparr> =
     Returned \<lparr>response = ascii ''Hello! I'' @ [8217] @ ascii ''m JOKKO AI. I can help with: residence permit, work, housing, healthcare, rights.'',
       language = ascii ''en'', sources = static_sources, category = Some (ascii ''generale''),
       confidence = 0.7\<rparr>"
proof -
  have "\<exists>resp answers.
         chat ul \<lparr>message = m, ChatRequest.language = l, user_id = u\<rparr> = Returned resp \<and>
         category resp = Some (ascii ''generale'') \<and> confidence resp = 0.7 \<and>
         ChatResponse.language resp = effective_language l \<and>
         map_of SAMPLE_RESPONSES (effective_language l) = Some answers \<and>
         map_of answers (ascii ''default'') = Some (response resp)"
    if "\<not> any_in (lower ul m) all_keywords"
    using chat_returns [of "\<lparr>message = m, ChatRequest.language = l, user_id = u\<rparr>" ul]
      first_match_none [OF that]
    by auto
  with chat_hello_there show ?thesis by blast
qed

theorem chat_no_keyword_witness:
  "\<not> any_in (lower (\<lambda>s. s) (ascii ''Bonjour, HELP'')) all_keywords \<and>
   (\<exists>resp. chat (\<lambda>s. s) \<lparr>message = ascii ''Bonjour, HELP'', ChatRequest.language = ascii ''fr'',
                         user_id = None\<rparr> = Returned resp \<and>
      category resp = Some (ascii ''generale'') \<and> confidence resp = 0.7 \<and>
      map_of answers_fr (ascii ''default'') = Some (response resp))"
proof -
  have h: "\<not> any_in (lower (\<lambda>s. s) (ascii ''Bonjour, HELP'')) all_keywords"
    by (simp add: any_in_all_keywords) (simp add: eval_defs)
  from h chat_no_keyword [of "\<lambda>s. s" "ascii ''Bonjour, HELP''" "ascii ''fr''" None]
  show ?thesis by (auto simp: effective_language_supported table_lookup)
qed

subsection \<open>The error branch\<close>

text \<open>
  Claim C5. Over any response table: when the body of the handler raises an exception,
  the handler raises an \<^verbatim>\<open>HTTPException\<close> with status code 500 whose detail is
  \<^verbatim>\<open>Errore: \<close> followed by the text of that exception; and in no case does the handler
  let the exception of the body through.
\<close>

theorem chat_error_wrapped:
  "(chat_body table ul r = Inl e \<longrightarrow>
      chat_on table ul r = Raised_HTTPException 500 (ascii ''Errore: '' @ exception_str e)) \<and>
   chat_on table ul r \<noteq> Raised e'"
  by (simp add: chat_on_def split: sum.splits)

text \<open>
  The theorem on a table whose Italian entry is empty: the lookup of \<^verbatim>\<open>default\<close>
  raises \<^verbatim>\<open>KeyError\<close>, and the handler answers with status 500.
\<close>

theorem chat_error_wrapped_witness:
  "chat_body [(ascii ''it'', [])] (\<lambda>s. s)
      \<lparr>message = ascii ''ciao'', ChatRequest.language = ascii ''en'', user_id = None\<rparr> =
     Inl (KeyError (ascii ''default'')) \<and>
   chat_on [(ascii ''it'', [])] (\<lambda>s. s)
      \<lparr>message = ascii ''ciao'', ChatRequest.language = ascii ''en'', user_id = None\<rparr> =
     Raised_HTTPException 500 (ascii ''Errore: '' @ [39] @ ascii ''default'' @ [39])"
proof -
  have h: "chat_body [(ascii ''it'', [])] (\<lambda>s. s)
      \<lparr>message = ascii ''ciao'', ChatRequest.language = ascii ''en'', user_id = None\<rparr> =
     Inl (KeyError (ascii ''default''))"
    by (simp add: chat_body_def has_key_def getitem_def bind_exn_def classify_def eval_defs)
  from h chat_error_wrapped [of "[(ascii ''it'', [])]" "\<lambda>s. s"
      "\<lparr>message = ascii ''ciao'', ChatRequest.language = ascii ''en'', user_id = None\<rparr>"
      "KeyError (ascii ''default'')"]
  show ?thesis by simp
qed

subsection \<open>The invariant of a response\<close>

text \<open>
  Claim C9. Every response the handler returns has a language among \<^verbatim>\<open>it\<close>,
  \<^verbatim>\<open>en\<close>, \<^verbatim>\<open>fr\<close>, a category among the six labels, and the confidence 0.9 for
  \<^verbatim>\<open>permesso_soggiorno\<close>, 0.7 for \<^verbatim>\<open>generale\<close> and 0.85 for the other four.
\<close>

theorem chat_response_invariant:
  assumes "chat ul r = Returned resp"
  shows "ChatResponse.language resp \<in> {ascii ''it'', ascii ''en'', ascii ''fr''} \<and>
         category resp \<in> {Some (ascii ''permesso_soggiorno''), Some (ascii ''lavoro''),
            Some (ascii ''casa''), Some (ascii ''sanita''), Some (ascii ''diritti''),
            Some (ascii ''generale'')} \<and>
         confidence resp =
           (if category resp = Some (ascii ''permesso_soggiorno'') then 0.9
            else if category resp = Some (ascii ''generale'') then 0.7 else 0.85)"
proof -
  let ?fm = "first_match (lower ul (message r))"
  from chat_returns [of r ul] assms
  have lang: "ChatResponse.language resp = effective_language (ChatRequest.language r)"
    and cat: "category resp = Some (fst (snd ?fm))"
    and conf: "confidence resp = snd (snd ?fm)"
    by auto
  from first_match_cases [of "lower ul (message r)"]
  have "category resp \<in> {Some (ascii ''permesso_soggiorno''), Some (ascii ''lavoro''),
            Some (ascii ''casa''), Some (ascii ''sanita''), Some (ascii ''diritti''),
            Some (ascii ''generale'')} \<and>
         confidence resp =
           (if category resp = Some (ascii ''permesso_soggiorno'') then 0.9
            else if category resp = Some (ascii ''generale'') then 0.7 else 0.85)"
    unfolding cat conf by (auto simp: rules_def)
  with lang effective_language_cases [of "ChatRequest.language r"] show ?thesis by auto
qed

theorem chat_response_invariant_witness:
  "chat (\<lambda>s. s) \<lparr>message = ascii ''My LEGAL rights'', ChatRequest.language = ascii ''so'',
                   user_id = Some (ascii ''u42'')\<rparr> =
     Returned \<lparr>response = ascii ''Hai diritto a: assistenza legale gratuita, protezione dalla discriminazione, accesso alla sanit'' @ [224] @ ascii '' e istruzione...'',
       language = ascii ''it'', sources = static_sources,
       category = Some (ascii ''diritti''), confidence = 0.85\<rparr> \<and>
   ascii ''it'' \<in> {ascii ''it'', ascii ''en'', ascii ''fr''} \<and>
   (0.85 :: real) = (if Some (ascii ''diritti'') = Some (ascii ''permesso_soggiorno'') then 0.9
            else if Some (ascii ''diritti'') = Some (ascii ''generale'') then 0.7 else 0.85)"
proof -
  have h: "chat (\<lambda>s. s) \<lparr>message = ascii ''My LEGAL rights'', ChatRequest.language = ascii ''so'',
                   user_id = Some (ascii ''u42'')\<rparr> =
     Returned \<lparr>response = ascii ''Hai diritto a: assistenza legale gratuita, protezione dalla discriminazione, accesso alla sanit'' @ [224] @ ascii '' e istruzione...'',
       language = ascii ''it'', sources = static_sources,
       category = Some (ascii ''diritti''), confidence = 0.85\<rparr>"
    by (rule chat_eval [OF effective_language_so table_lookup(1) first_match_legal_rights])
       (simp add: answers_it_def)
  from chat_response_invariant [OF h] h show ?thesis by simp
qed

end
